theory Spec2Isabelle
  imports Main "HOL-Library.Sublist"
begin

section \<open>Values, exceptions and the outside world\<close>

text \<open>
  The script \<^verbatim>\<open>slack_delete.py\<close> handles the values that \<^verbatim>\<open>json.loads\<close> returns and
  the command line options. One datatype holds them all: \<^verbatim>\<open>None\<close>, \<^verbatim>\<open>bool\<close>, \<^verbatim>\<open>int\<close>
  (unbounded), \<^verbatim>\<open>str\<close>, \<^verbatim>\<open>list\<close> and \<^verbatim>\<open>dict\<close>. A dict is an association list read
  with \<open>map_of\<close>. Numbers with a fractional part (Python floats) are not represented.
\<close>

datatype json =
    JNull
  | JBool bool
  | JInt int
  | JStr string
  | JArr "json list"
  | JObj "(string \<times> json) list"

text \<open>
  Exceptions are values. \<open>OtherError\<close> stands for whatever the HTTP client and the JSON
  parser raise (connection errors, decode errors).
\<close>

datatype exn =
    KeyboardInterrupt
  | KeyError string
  | TypeError
  | ValueError
  | UnboundLocalError string
  | OtherError string

text \<open>
  What the script does to the outside is recorded as a trace of events. A \<^verbatim>\<open>print\<close> of a
  \<^verbatim>\<open>%\<close>-formatted line is kept as the format string with its arguments; the argument
  \<open>Now\<close> is the value of \<^verbatim>\<open>current_timestamp()\<close>, the wall clock read at that moment.
  \<open>PrintRows\<close> is the \<^verbatim>\<open>print\<close> of the list of 5-tuples in \<^verbatim>\<open>delete_files\<close>. \<open>Get\<close> is
  \<^verbatim>\<open>requests.get(uri, params=params)\<close> and \<open>Sleep\<close> is \<^verbatim>\<open>time.sleep\<close>.
\<close>

datatype fmt_arg = Now | Val json

datatype event =
    Print string "fmt_arg list"
  | PrintRows "(json \<times> json \<times> json \<times> json \<times> json) list"
  | Get string "(string \<times> json) list"
  | Sleep int

text \<open>
  Everything the script receives from outside:
  \<^item> \<open>unix_time\<close>: the value of \<^verbatim>\<open>int(time.time())\<close>;
  \<^item> \<open>http_get_json\<close>: the outcome of \<^verbatim>\<open>json.loads(requests.get(uri, params).text)\<close>,
    given the trace up to and including the request: the parsed body, or the exception
    that the request or the parser raised (a \<open>KeyboardInterrupt\<close> among them);
  \<^item> \<open>sleep\<close>: whether \<^verbatim>\<open>time.sleep\<close> returns (\<open>None\<close>) or is interrupted by an exception,
    given the trace up to and including the sleep;
  \<^item> \<open>strftime_local\<close>: \<^verbatim>\<open>datetime.fromtimestamp(t).strftime('%Y-%m-%d %H:%M:%S')\<close>, which
    depends on the local time zone and raises when \<open>t\<close> is out of range;
  \<^item> \<open>int_of_str\<close>: the builtin \<^verbatim>\<open>int\<close> applied to a string.

  An exception from outside (a \<open>KeyboardInterrupt\<close>, a connection error) reaches the script
  where it waits for the outside: in a request and in a sleep.
\<close>

record world =
  unix_time :: int
  http_get_json :: "event list \<Rightarrow> exn + json"
  sleep :: "event list \<Rightarrow> exn option"
  strftime_local :: "int \<Rightarrow> exn + string"
  int_of_str :: "string \<Rightarrow> exn + int"

subsection \<open>The operations of Python that the script applies to these values\<close>

text \<open>\<^verbatim>\<open>v[k]\<close> for a string key \<open>k\<close>: only a dict has string keys.\<close>

fun subscript :: "json \<Rightarrow> string \<Rightarrow> exn + json" where
  "subscript (JObj kvs) k = (case map_of kvs k of None \<Rightarrow> Inl (KeyError k) | Some v \<Rightarrow> Inr v)"
| "subscript JNull k = Inl TypeError"
| "subscript (JBool b) k = Inl TypeError"
| "subscript (JInt n) k = Inl TypeError"
| "subscript (JStr s) k = Inl TypeError"
| "subscript (JArr xs) k = Inl TypeError"

text \<open>
  \<^verbatim>\<open>m in v\<close> for a string \<open>m\<close>: a substring test on a string, membership in a list, key
  membership in a dict, and a \<open>TypeError\<close> on values that are not containers.
\<close>

fun py_in :: "string \<Rightarrow> json \<Rightarrow> exn + bool" where
  "py_in m (JStr s) = Inr (sublist m s)"
| "py_in m (JArr xs) = Inr (JStr m \<in> set xs)"
| "py_in m (JObj kvs) = Inr (m \<in> set (map fst kvs))"
| "py_in m JNull = Inl TypeError"
| "py_in m (JBool b) = Inl TypeError"
| "py_in m (JInt n) = Inl TypeError"

text \<open>\<^verbatim>\<open>for f in v\<close>: the elements of a list, the keys of a dict, the characters of a string.\<close>

fun py_iter :: "json \<Rightarrow> exn + json list" where
  "py_iter (JArr xs) = Inr xs"
| "py_iter (JObj kvs) = Inr (map (\<lambda>kv. JStr (fst kv)) kvs)"
| "py_iter (JStr s) = Inr (map (\<lambda>c. JStr [c]) s)"
| "py_iter JNull = Inl TypeError"
| "py_iter (JBool b) = Inl TypeError"
| "py_iter (JInt n) = Inl TypeError"

text \<open>The truth value of \<^verbatim>\<open>if v:\<close>.\<close>

fun truthy :: "json \<Rightarrow> bool" where
  "truthy JNull = False"
| "truthy (JBool b) = b"
| "truthy (JInt n) = (n \<noteq> 0)"
| "truthy (JStr s) = (s \<noteq> [])"
| "truthy (JArr xs) = (xs \<noteq> [])"
| "truthy (JObj kvs) = (kvs \<noteq> [])"

text \<open>\<^verbatim>\<open>int(v)\<close>.\<close>

fun py_int :: "world \<Rightarrow> json \<Rightarrow> exn + int" where
  "py_int w (JInt n) = Inr n"
| "py_int w (JBool b) = Inr (if b then 1 else 0)"
| "py_int w (JStr s) = int_of_str w s"
| "py_int w JNull = Inl TypeError"
| "py_int w (JArr xs) = Inl TypeError"
| "py_int w (JObj kvs) = Inl TypeError"

text \<open>\<^verbatim>\<open>datetime.fromtimestamp(v).strftime('%Y-%m-%d %H:%M:%S')\<close>.\<close>

fun format_timestamp :: "world \<Rightarrow> json \<Rightarrow> exn + string" where
  "format_timestamp w (JInt n) = strftime_local w n"
| "format_timestamp w (JBool b) = strftime_local w (if b then 1 else 0)"
| "format_timestamp w JNull = Inl TypeError"
| "format_timestamp w (JStr s) = Inl TypeError"
| "format_timestamp w (JArr xs) = Inl TypeError"
| "format_timestamp w (JObj kvs) = Inl TypeError"

section \<open>The script\<close>

subsection \<open>Module constants\<close>

definition mimetypes :: "string list" where
  "mimetypes = [''audio'', ''image'', ''video'']"

definition wait_seconds :: int where
  "wait_seconds = 2"

text \<open>
  \<open>list_uri\<close> is the value that both \<^verbatim>\<open>list_files\<close> and \<^verbatim>\<open>delete_files\<close> assign to their
  local \<^verbatim>\<open>uri\<close>. In \<^verbatim>\<open>delete_files\<close> the assignment of
  \<^verbatim>\<open>'https://slack.com/api/files.delete'\<close> stands in a comment, so it is no part of the program.
\<close>

definition list_uri :: string where
  "list_uri = ''https://slack.com/api/files.list''"

subsection \<open>\<^verbatim>\<open>calculate_days\<close>\<close>

definition calculate_days :: "world \<Rightarrow> int \<Rightarrow> int" where
  "calculate_days w days = unix_time w - days * 24 * 60 * 60"

subsection \<open>\<^verbatim>\<open>list_files\<close>\<close>

text \<open>The dict that \<^verbatim>\<open>list_files\<close> appends for a file, with its five fixed keys.\<close>

record file_record =
  f_id :: json
  f_name :: json
  f_timestamp :: json
  f_mimetype :: json
  f_size :: json

text \<open>
  \<^verbatim>\<open>[mimetype in f['mimetype'] for mimetype in mimetypes]\<close>: the list comprehension
  evaluates every test, in order, before \<^verbatim>\<open>any\<close> looks at the results.
\<close>

fun mimetype_tests :: "json \<Rightarrow> string list \<Rightarrow> exn + bool list" where
  "mimetype_tests f [] = Inr []"
| "mimetype_tests f (m # ms) =
     (case subscript f ''mimetype'' of
        Inl e \<Rightarrow> Inl e
      | Inr v \<Rightarrow>
          (case py_in m v of
             Inl e \<Rightarrow> Inl e
           | Inr b \<Rightarrow>
               (case mimetype_tests f ms of
                  Inl e \<Rightarrow> Inl e
                | Inr bs \<Rightarrow> Inr (b # bs))))"

definition py_any :: "bool list \<Rightarrow> bool" where
  "py_any bs = list_ex (\<lambda>b. b) bs"

text \<open>The dict literal, its entries evaluated in the order written.\<close>

definition new_record :: "world \<Rightarrow> json \<Rightarrow> exn + file_record" where
  "new_record w f =
     (case subscript f ''id'' of
        Inl e \<Rightarrow> Inl e
      | Inr i \<Rightarrow>
     (case subscript f ''name'' of
        Inl e \<Rightarrow> Inl e
      | Inr n \<Rightarrow>
     (case subscript f ''timestamp'' of
        Inl e \<Rightarrow> Inl e
      | Inr t \<Rightarrow>
     (case format_timestamp w t of
        Inl e \<Rightarrow> Inl e
      | Inr ts \<Rightarrow>
     (case subscript f ''mimetype'' of
        Inl e \<Rightarrow> Inl e
      | Inr mt \<Rightarrow>
     (case subscript f ''size'' of
        Inl e \<Rightarrow> Inl e
      | Inr sz \<Rightarrow>
          Inr \<lparr>f_id = i, f_name = n, f_timestamp = JStr ts,
               f_mimetype = mt, f_size = sz\<rparr>))))))"

text \<open>The loop \<^verbatim>\<open>for f in resp\<close>, with the list \<^verbatim>\<open>files\<close> built so far.\<close>

fun filter_files :: "world \<Rightarrow> json list \<Rightarrow> file_record list \<Rightarrow> exn + file_record list" where
  "filter_files w [] files = Inr files"
| "filter_files w (f # resp) files =
     (case mimetype_tests f mimetypes of
        Inl e \<Rightarrow> Inl e
      | Inr bs \<Rightarrow>
          if py_any bs then
            (case new_record w f of
               Inl e \<Rightarrow> Inl e
             | Inr r \<Rightarrow> filter_files w resp (files @ [r]))
          else filter_files w resp files)"

definition list_params :: "world \<Rightarrow> string \<Rightarrow> int \<Rightarrow> int \<Rightarrow> (string \<times> json) list" where
  "list_params w token days count =
     (if days \<noteq> 0 then
        [(''token'', JStr token), (''count'', JInt count),
         (''ts_to'', JInt (calculate_days w days))]
      else
        [(''token'', JStr token), (''count'', JInt count)])"

text \<open>
  \<open>list_files w token days count tr\<close> continues the trace \<open>tr\<close> and returns the list of
  records or the exception raised, with the trace at that point.
\<close>

definition list_files ::
  "world \<Rightarrow> string \<Rightarrow> int \<Rightarrow> int \<Rightarrow> event list \<Rightarrow> (exn + file_record list) \<times> event list" where
  "list_files w token days count tr =
     (let tr1 = tr @ [Print ''[*] %s delete files older than %s days'' [Now, Val (JInt days)]];
          params = list_params w token days count;
          uri = list_uri;
          tr2 = tr1 @ [Get uri params]
      in case http_get_json w tr2 of
           Inl e \<Rightarrow> (Inl e, tr2)
         | Inr body \<Rightarrow>
             (case subscript body ''files'' of
                Inl e \<Rightarrow> (Inl e, tr2)
              | Inr resp \<Rightarrow>
                  (case py_iter resp of
                     Inl e \<Rightarrow> (Inl e, tr2)
                   | Inr fs \<Rightarrow> (filter_files w fs [], tr2))))"

subsection \<open>\<^verbatim>\<open>delete_files\<close>\<close>

text \<open>\<^verbatim>\<open>[int(f['size']) for f in files]\<close>.\<close>

fun sizes :: "world \<Rightarrow> file_record list \<Rightarrow> exn + int list" where
  "sizes w [] = Inr []"
| "sizes w (f # fs) =
     (case py_int w (f_size f) of
        Inl e \<Rightarrow> Inl e
      | Inr n \<Rightarrow> (case sizes w fs of Inl e \<Rightarrow> Inl e | Inr ns \<Rightarrow> Inr (n # ns)))"

definition delete_params :: "string \<Rightarrow> file_record \<Rightarrow> (string \<times> json) list" where
  "delete_params token f = [(''token'', JStr token), (''file'', f_id f)]"

definition deleted_line :: "file_record \<Rightarrow> event" where
  "deleted_line f =
     Print ''[+] %s Deleted: [%s] %s (%s)'' [Now, Val (f_id f), Val (f_name f), Val (f_timestamp f)]"

definition unable_line :: "file_record \<Rightarrow> json \<Rightarrow> event" where
  "unable_line f reason =
     Print ''[!] %s Unable to delete: [%s] %s, reason: %s''
       [Now, Val (f_id f), Val (f_name f), Val reason]"

text \<open>
  The loop \<^verbatim>\<open>for f in files\<close> of \<^verbatim>\<open>delete_files\<close>. It carries the local \<^verbatim>\<open>count\<close> and the
  trace, and returns both with \<open>Inr ()\<close> when the list is exhausted or with the exception
  that left the loop.
\<close>

fun delete_loop ::
  "world \<Rightarrow> string \<Rightarrow> file_record list \<Rightarrow> int \<Rightarrow> event list \<Rightarrow> (exn + unit) \<times> int \<times> event list" where
  "delete_loop w token [] count tr = (Inr (), count, tr)"
| "delete_loop w token (f # fs) count tr =
     (let count1 = count + 1;
          params = delete_params token f;
          tr1 = tr @ [Get list_uri params]
      in case http_get_json w tr1 of
           Inl e \<Rightarrow> (Inl e, count1, tr1)
         | Inr dresponse \<Rightarrow>
             (let tr2 = tr1 @ [Sleep wait_seconds]
              in case sleep w tr2 of
                   Some e \<Rightarrow> (Inl e, count1, tr2)
                 | None \<Rightarrow>
                     (case subscript dresponse ''ok'' of
                        Inl e \<Rightarrow> (Inl e, count1, tr2)
                      | Inr ok \<Rightarrow>
                          if truthy ok then
                            delete_loop w token fs count1 (tr2 @ [deleted_line f])
                          else
                            (case subscript dresponse ''error'' of
                               Inl e \<Rightarrow> (Inl e, count1, tr2)
                             | Inr reason \<Rightarrow>
                                 delete_loop w token fs count1 (tr2 @ [unable_line f reason])))))"

definition found_line :: "int \<Rightarrow> int \<Rightarrow> event" where
  "found_line num_files size_to_delete =
     Print ''[i] %s found %s files in %s bytes'' [Now, Val (JInt num_files), Val (JInt size_to_delete)]"

definition rows :: "file_record list \<Rightarrow> event" where
  "rows files =
     PrintRows (map (\<lambda>f. (f_id f, f_name f, f_timestamp f, f_mimetype f, f_size f)) files)"

definition attempted_line :: "int \<Rightarrow> int \<Rightarrow> int \<Rightarrow> event" where
  "attempted_line size_to_delete num_files count =
     Print ''[i] %s Attempted to delete %s bytes in %s files, actually deleted %s files''
       [Now, Val (JInt size_to_delete), Val (JInt num_files), Val (JInt count)]"

text \<open>
  \<^verbatim>\<open>delete_files\<close>: the body of the \<^verbatim>\<open>try\<close>, then the \<^verbatim>\<open>finally\<close> block. When a size cannot
  be converted, the exception leaves the \<^verbatim>\<open>try\<close> before \<^verbatim>\<open>size_to_delete\<close> is bound, and the
  \<^verbatim>\<open>finally\<close> block, which reads that variable, raises \<open>UnboundLocalError\<close> in its place.
  The \<^verbatim>\<open>return\<close> of the dry run passes through the \<^verbatim>\<open>finally\<close> block as well.
\<close>

definition delete_files ::
  "world \<Rightarrow> string \<Rightarrow> file_record list \<Rightarrow> bool \<Rightarrow> event list \<Rightarrow> (exn + unit) \<times> event list" where
  "delete_files w token files view_only tr =
     (case sizes w files of
        Inl e \<Rightarrow> (Inl (UnboundLocalError ''size_to_delete''), tr)
      | Inr ns \<Rightarrow>
          (let size_to_delete = sum_list ns;
               num_files = int (length files);
               tr1 = tr @ [found_line num_files size_to_delete, rows files];
               (r, count, tr2) =
                 (if view_only then (Inr (), 0, tr1)
                  else delete_loop w token files 0 tr1)
           in (r, tr2 @ [attempted_line size_to_delete num_files count])))"

subsection \<open>\<^verbatim>\<open>main\<close>\<close>

text \<open>The options as \<^verbatim>\<open>argparse\<close> delivers them.\<close>

record options =
  opt_token :: string
  opt_days :: int
  opt_count :: int
  opt_dry_run :: bool

text \<open>How the process ends: \<^verbatim>\<open>main\<close> returns, \<^verbatim>\<open>exit(n)\<close> is called, or an exception is not caught.\<close>

datatype outcome = Returned | Exited int | Uncaught exn

definition aborted_line :: event where
  "aborted_line = Print ([CHR 0x08, CHR 0x08] @ ''[-] Aborted'') []"

text \<open>The clause \<^verbatim>\<open>except KeyboardInterrupt\<close>.\<close>

definition handler :: "exn \<Rightarrow> event list \<Rightarrow> outcome \<times> event list" where
  "handler e tr =
     (if e = KeyboardInterrupt then (Exited 1, tr @ [aborted_line])
      else (Uncaught e, tr))"

definition main :: "world \<Rightarrow> options \<Rightarrow> outcome \<times> event list" where
  "main w options =
     (let tr0 = [Print ''[*] Fetching file list..'' []]
      in case list_files w (opt_token options) (opt_days options) (opt_count options) tr0 of
           (Inl e, tr1) \<Rightarrow> handler e tr1
         | (Inr files, tr1) \<Rightarrow>
             (let tr2 = tr1 @ [Print ''[*] Deleting files..'' []]
              in case delete_files w (opt_token options) files (opt_dry_run options) tr2 of
                   (Inl e, tr3) \<Rightarrow> handler e tr3
                 | (Inr u, tr3) \<Rightarrow> (Returned, tr3 @ [Print ''[*] Done'' []])))"

section \<open>Observations on traces\<close>

text \<open>The requests in a trace, and the requests together with the sleeps.\<close>

fun is_get :: "event \<Rightarrow> bool" where
  "is_get (Get u p) = True"
| "is_get (Print s a) = False"
| "is_get (PrintRows r) = False"
| "is_get (Sleep n) = False"

fun is_io :: "event \<Rightarrow> bool" where
  "is_io (Get u p) = True"
| "is_io (Sleep n) = True"
| "is_io (Print s a) = False"
| "is_io (PrintRows r) = False"

section \<open>The specification's notion of a media file\<close>

text \<open>
  This definition follows the words of the specification, not the code: a file object is
  a media file when its mimetype field is a string that contains \<open>audio\<close>, \<open>image\<close> or
  \<open>video\<close> as a substring.
\<close>

definition spec_media_mimetype :: "json \<Rightarrow> bool" where
  "spec_media_mimetype f =
     (case subscript f ''mimetype'' of
        Inr (JStr s) \<Rightarrow> sublist ''audio'' s \<or> sublist ''image'' s \<or> sublist ''video'' s
      | _ \<Rightarrow> False)"

text \<open>
  A file object as the remote service documents it: a dict with the five fields that
  \<^verbatim>\<open>list_files\<close> reads, a string mimetype, and a timestamp that the local calendar can format.
\<close>

definition well_formed_file :: "world \<Rightarrow> json \<Rightarrow> bool" where
  "well_formed_file w f \<longleftrightarrow>
     \<not> isl (subscript f ''id'') \<and>
     \<not> isl (subscript f ''name'') \<and>
     (case subscript f ''timestamp'' of
        Inl e \<Rightarrow> False
      | Inr t \<Rightarrow> \<not> isl (format_timestamp w t)) \<and>
     (case subscript f ''mimetype'' of
        Inr (JStr m) \<Rightarrow> True
      | _ \<Rightarrow> False) \<and>
     \<not> isl (subscript f ''size'')"

section \<open>Example runs\<close>

text \<open>
  Concrete inputs on which the theorems below are instantiated. The listing is the example
  of the specification: \<open>F1\<close> is an image and \<open>F2\<close> is plain text.
\<close>

definition example_file :: "string \<Rightarrow> string \<Rightarrow> int \<Rightarrow> json" where
  "example_file i m n =
     JObj [(''id'', JStr i), (''name'', JStr (i @ ''.bin'')), (''mimetype'', JStr m),
           (''timestamp'', JInt 0), (''size'', JInt n)]"

definition example_listing :: json where
  "example_listing =
     JObj [(''ok'', JBool True),
           (''files'', JArr [example_file ''F1'' ''image/png'' 100,
                             example_file ''F2'' ''text/plain'' 50])]"

definition example_record :: "string \<Rightarrow> string \<Rightarrow> int \<Rightarrow> file_record" where
  "example_record i m n =
     \<lparr>f_id = JStr i, f_name = JStr (i @ ''.bin''), f_timestamp = JStr ''1970-01-01 00:00:00'',
      f_mimetype = JStr m, f_size = JInt n\<rparr>"

definition example_files :: "file_record list" where
  "example_files =
     [example_record ''F1'' ''image/png'' 100,
      example_record ''F2'' ''video/mp4'' 50,
      example_record ''F3'' ''audio/mpeg'' 7]"

text \<open>
  A world whose \<open>n\<close>-th request is answered by \<open>answers n\<close> and whose sleep after the
  \<open>n\<close>-th request behaves as \<open>naps n\<close> says. Its clock stands at \<open>2 * 2592000\<close>.
\<close>

definition example_world :: "(nat \<Rightarrow> exn + json) \<Rightarrow> (nat \<Rightarrow> exn option) \<Rightarrow> world" where
  "example_world answers naps =
     \<lparr>unix_time = 5184000,
      http_get_json = (\<lambda>tr. answers (length (filter is_get tr))),
      sleep = (\<lambda>tr. naps (length (filter is_get tr))),
      strftime_local = (\<lambda>t. if t = 0 then Inr ''1970-01-01 00:00:00'' else Inl ValueError),
      int_of_str = (\<lambda>s. Inl ValueError)\<rparr>"

definition ok_answer :: json where
  "ok_answer = JObj [(''ok'', JBool True)]"

definition not_found_answer :: json where
  "not_found_answer = JObj [(''ok'', JBool False), (''error'', JStr ''not_found'')]"

text \<open>The first request succeeds, every later one is answered with \<open>not_found\<close>.\<close>

definition mixed_world :: world where
  "mixed_world =
     example_world (\<lambda>n. if n = 1 then Inr ok_answer else Inr not_found_answer) (\<lambda>n. None)"

text \<open>The second request raises.\<close>

definition broken_world :: world where
  "broken_world =
     example_world
       (\<lambda>n. if n = 2 then Inl (OtherError ''ConnectionError'') else Inr ok_answer) (\<lambda>n. None)"

text \<open>Every request is answered with the example listing.\<close>

definition listing_world :: world where
  "listing_world = example_world (\<lambda>n. Inr example_listing) (\<lambda>n. None)"

text \<open>The listing arrives, and the user interrupts the first sleep.\<close>

definition interrupted_world :: world where
  "interrupted_world =
     example_world (\<lambda>n. if n = 1 then Inr example_listing else Inr ok_answer)
       (\<lambda>n. Some KeyboardInterrupt)"

text \<open>No request gets through.\<close>

definition offline_world :: world where
  "offline_world = example_world (\<lambda>n. Inl (OtherError ''ConnectionError'')) (\<lambda>n. None)"

definition example_options :: options where
  "example_options = \<lparr>opt_token = ''xoxp'', opt_days = 30, opt_count = 1000, opt_dry_run = False\<rparr>"

lemmas example_defs =
  example_world_def mixed_world_def broken_world_def listing_world_def interrupted_world_def
  offline_world_def ok_answer_def not_found_answer_def example_files_def example_record_def
  example_file_def example_listing_def example_options_def

lemmas script_defs =
  delete_files_def list_files_def list_params_def calculate_days_def new_record_def
  mimetypes_def py_any_def Let_def delete_params_def found_line_def rows_def
  attempted_line_def deleted_line_def unable_line_def list_uri_def wait_seconds_def

section \<open>Lemmas about the two loops\<close>

subsection \<open>\<^verbatim>\<open>list_files\<close>\<close>

text \<open>Whatever the remote answers, \<^verbatim>\<open>list_files\<close> prints one line and sends one request.\<close>

lemma list_files_trace:
  "snd (list_files w token days count tr) =
     tr @ [Print ''[*] %s delete files older than %s days'' [Now, Val (JInt days)],
           Get list_uri (list_params w token days count)]"
  by (simp add: list_files_def Let_def split: sum.splits)

lemma mimetype_tests_str:
  "subscript f ''mimetype'' = Inr (JStr s) \<Longrightarrow>
   mimetype_tests f mimetypes = Inr [sublist ''audio'' s, sublist ''image'' s, sublist ''video'' s]"
  by (simp add: mimetypes_def)

lemma filter_files_spec:
  "\<forall>f\<in>set fs. \<exists>s. subscript f ''mimetype'' = Inr (JStr s) \<Longrightarrow>
   filter_files w fs acc = Inr files \<Longrightarrow>
   map Inr files = map Inr acc @ map (new_record w) (filter spec_media_mimetype fs)"
proof (induction fs arbitrary: acc)
  case Nil
  then show ?case by simp
next
  case (Cons f fs)
  from Cons.prems(1) obtain s where s: "subscript f ''mimetype'' = Inr (JStr s)"
    by auto
  from Cons.prems(1) have rest: "\<forall>f\<in>set fs. \<exists>s. subscript f ''mimetype'' = Inr (JStr s)"
    by simp
  have m: "spec_media_mimetype f =
             py_any [sublist ''audio'' s, sublist ''image'' s, sublist ''video'' s]"
    using s by (simp add: spec_media_mimetype_def py_any_def)
  show ?case
  proof (cases "spec_media_mimetype f")
    case True
    with m s Cons.prems(2) obtain r where r: "new_record w f = Inr r"
      and run: "filter_files w fs (acc @ [r]) = Inr files"
      by (auto simp: mimetype_tests_str split: sum.splits)
    from Cons.IH [OF rest run] True r show ?thesis by simp
  next
    case False
    with m s Cons.prems(2) have run: "filter_files w fs acc = Inr files"
      by (simp add: mimetype_tests_str)
    from Cons.IH [OF rest run] False show ?thesis by simp
  qed
qed

text \<open>On well-formed file objects neither the filter nor the construction of a record raises.\<close>

lemma well_formed_file_mimetype:
  "well_formed_file w f \<Longrightarrow> \<exists>s. subscript f ''mimetype'' = Inr (JStr s)"
  by (auto simp: well_formed_file_def split: sum.splits json.splits)

lemma well_formed_file_record:
  "well_formed_file w f \<Longrightarrow> \<exists>r. new_record w f = Inr r"
  by (auto simp: well_formed_file_def new_record_def isl_def split: sum.splits json.splits)

lemma filter_files_returns:
  "\<forall>f\<in>set fs. well_formed_file w f \<Longrightarrow> \<exists>files. filter_files w fs acc = Inr files"
proof (induction fs arbitrary: acc)
  case Nil
  show ?case by simp
next
  case (Cons f fs)
  from Cons.prems have wf: "well_formed_file w f" and rest: "\<forall>f\<in>set fs. well_formed_file w f"
    by simp_all
  from well_formed_file_mimetype [OF wf] obtain s where s: "subscript f ''mimetype'' = Inr (JStr s)"
    by blast
  from well_formed_file_record [OF wf] obtain r where r: "new_record w f = Inr r"
    by blast
  from Cons.IH [OF rest] s r show ?case
    by (simp add: mimetype_tests_str)
qed

lemma list_files_returns:
  assumes "http_get_json w
             (tr @ [Print ''[*] %s delete files older than %s days'' [Now, Val (JInt days)],
                    Get list_uri (list_params w token days count)]) = Inr body"
      and "subscript body ''files'' = Inr (JArr fs)"
      and "\<forall>f\<in>set fs. well_formed_file w f"
  shows "\<exists>files. fst (list_files w token days count tr) = Inr files"
  using assms(1,2) filter_files_returns [OF assms(3), of "[]"]
  by (auto simp: list_files_def Let_def)

lemma new_record_mimetype:
  "new_record w f = Inr r \<Longrightarrow> subscript f ''mimetype'' = Inr (f_mimetype r)"
  by (auto simp: new_record_def split: sum.splits)

subsection \<open>\<^verbatim>\<open>delete_files\<close>\<close>

lemma sizes_JInt: "map f_size files = map JInt ns \<Longrightarrow> sizes w files = Inr ns"
  by (induction files arbitrary: ns) auto

text \<open>The loop over a concatenation runs the second part only if the first part finished.\<close>

lemma delete_loop_append:
  "delete_loop w token (xs @ ys) c tr =
     (case delete_loop w token xs c tr of
        (Inl e, c', tr') \<Rightarrow> (Inl e, c', tr')
      | (Inr u, c', tr') \<Rightarrow> delete_loop w token ys c' tr')"
  by (induction xs arbitrary: c tr) (simp_all add: Let_def split: sum.splits option.splits)

text \<open>A loop that finished has counted every record.\<close>

lemma delete_loop_count:
  "delete_loop w token xs c tr = (Inr u, c', tr') \<Longrightarrow> c' = c + int (length xs)"
proof (induction xs arbitrary: c tr)
  case Nil
  then show ?case by simp
next
  case (Cons f fs)
  then show ?case
    by (fastforce simp: Let_def split: sum.splits option.splits if_splits)
qed

text \<open>
  The requests and sleeps of the loop, in any run: a prefix of one request and one sleep per
  record, in the order of the list, and all of them when the loop finished.
\<close>

lemma delete_loop_io:
  "delete_loop w token fs c tr = (r, c', tr') \<Longrightarrow>
   \<exists>ev. tr' = tr @ ev \<and>
     prefix (filter is_io ev)
       (concat (map (\<lambda>f. [Get list_uri (delete_params token f), Sleep wait_seconds]) fs)) \<and>
     (r = Inr () \<longrightarrow> filter is_io ev =
       concat (map (\<lambda>f. [Get list_uri (delete_params token f), Sleep wait_seconds]) fs))"
proof (induction fs arbitrary: c tr)
  case Nil
  then show ?case by simp
next
  case (Cons f fs)
  let ?g = "Get list_uri (delete_params token f)"
  let ?s = "Sleep wait_seconds"
  show ?case
  proof (cases "http_get_json w (tr @ [?g])")
    case (Inl e)
    with Cons.prems show ?thesis
      by (auto simp: Let_def)
  next
    case (Inr d)
    note d = Inr
    show ?thesis
    proof (cases "sleep w (tr @ [?g, ?s])")
      case (Some e)
      with d Cons.prems show ?thesis
        by (auto simp: Let_def)
    next
      case None
      note s = None
      show ?thesis
      proof (cases "subscript d ''ok''")
        case (Inl e)
        with d s Cons.prems show ?thesis
          by (auto simp: Let_def)
      next
        case (Inr ok)
        note k = Inr
        show ?thesis
        proof (cases "truthy ok")
          case True
          with d s k Cons.prems
          have "delete_loop w token fs (c + 1) (tr @ [?g, ?s, deleted_line f]) = (r, c', tr')"
            by (simp add: Let_def)
          from Cons.IH [OF this] show ?thesis
            by (auto simp: deleted_line_def)
        next
          case False
          note f = False
          show ?thesis
          proof (cases "subscript d ''error''")
            case (Inl e)
            with d s k f Cons.prems show ?thesis
              by (auto simp: Let_def)
          next
            case (Inr reason)
            with d s k f Cons.prems
            have "delete_loop w token fs (c + 1) (tr @ [?g, ?s, unable_line f reason]) =
                    (r, c', tr')"
              by (simp add: Let_def)
            from Cons.IH [OF this] show ?thesis
              by (auto simp: unable_line_def)
          qed
        qed
      qed
    qed
  qed
qed

text \<open>
  The loop finishes when no request and no sleep raises and every answer is a dict with
  the key \<open>ok\<close>, and with the key \<open>error\<close> when \<open>ok\<close> is false.
\<close>

lemma delete_loop_completes:
  assumes answers: "\<And>tr. \<exists>d ok. http_get_json w tr = Inr d \<and> subscript d ''ok'' = Inr ok \<and>
                      (truthy ok \<or> (\<exists>reason. subscript d ''error'' = Inr reason))"
      and naps: "\<And>tr. sleep w tr = None"
  shows "fst (delete_loop w token fs c tr) = Inr ()"
proof (induction fs arbitrary: c tr)
  case Nil
  show ?case by simp
next
  case (Cons f fs)
  from answers [of "tr @ [Get list_uri (delete_params token f)]"]
  obtain d ok where d: "http_get_json w (tr @ [Get list_uri (delete_params token f)]) = Inr d"
    and ok: "subscript d ''ok'' = Inr ok"
    and err: "truthy ok \<or> (\<exists>reason. subscript d ''error'' = Inr reason)"
    by blast
  show ?case
  proof (cases "truthy ok")
    case True
    with d ok naps Cons.IH show ?thesis
      by (simp add: Let_def)
  next
    case False
    with err obtain reason where "subscript d ''error'' = Inr reason"
      by blast
    with False d ok naps Cons.IH show ?thesis
      by (simp add: Let_def)
  qed
qed

text \<open>The requests and sleeps of \<^verbatim>\<open>delete_files\<close>, in any run.\<close>

lemma delete_files_io:
  assumes "delete_files w token files view_only tr = (r, tr')"
  shows "\<exists>ev. tr' = tr @ ev \<and>
     (view_only \<longrightarrow> filter is_io ev = []) \<and>
     (\<not> view_only \<longrightarrow>
        prefix (filter is_io ev)
          (concat (map (\<lambda>f. [Get list_uri (delete_params token f), Sleep wait_seconds]) files)) \<and>
        (r = Inr () \<longrightarrow>
           filter is_io ev =
             concat (map (\<lambda>f. [Get list_uri (delete_params token f), Sleep wait_seconds]) files)))"
proof (cases "sizes w files")
  case (Inl e)
  with assms show ?thesis
    by (auto simp: delete_files_def)
next
  case (Inr ns)
  let ?tr1 = "tr @ [found_line (int (length files)) (sum_list ns), rows files]"
  show ?thesis
  proof (cases view_only)
    case True
    with Inr assms show ?thesis
      by (auto simp: delete_files_def Let_def found_line_def rows_def attempted_line_def)
  next
    case False
    obtain r0 c tr2 where loop: "delete_loop w token files 0 ?tr1 = (r0, c, tr2)"
      by (cases "delete_loop w token files 0 ?tr1") auto
    with Inr False assms have r: "r = r0"
      and tr': "tr' = tr2 @ [attempted_line (sum_list ns) (int (length files)) c]"
      by (auto simp: delete_files_def Let_def)
    from delete_loop_io [OF loop] obtain ev where ev: "tr2 = ?tr1 @ ev"
      and pre: "prefix (filter is_io ev)
        (concat (map (\<lambda>f. [Get list_uri (delete_params token f), Sleep wait_seconds]) files))"
      and full: "r0 = Inr () \<longrightarrow> filter is_io ev =
        concat (map (\<lambda>f. [Get list_uri (delete_params token f), Sleep wait_seconds]) files)"
      by blast
    let ?ev = "[found_line (int (length files)) (sum_list ns), rows files] @ ev @
               [attempted_line (sum_list ns) (int (length files)) c]"
    have "tr' = tr @ ?ev"
      using tr' ev by simp
    moreover have "filter is_io ?ev = filter is_io ev"
      by (simp add: found_line_def rows_def attempted_line_def)
    ultimately show ?thesis
      using False pre full r by metis
  qed
qed

section \<open>The claims\<close>

subsection \<open>The age cutoff of the listing request\<close>

text \<open>
  Claim C4. For every days value \<open>N > 0\<close> the listing request carries the upper-bound
  timestamp parameter \<open>ts_to\<close>, equal to the current time minus \<open>N * 86400\<close> seconds; when
  days is \<open>0\<close> the request carries only the credential and the count. In both cases
  \<^verbatim>\<open>list_files\<close> prints its line and sends this one request, whatever the remote answers.
\<close>

theorem list_files_cutoff:
  "(0 < days \<longrightarrow>
      snd (list_files w token days count tr) =
        tr @ [Print ''[*] %s delete files older than %s days'' [Now, Val (JInt days)],
              Get ''https://slack.com/api/files.list''
                [(''token'', JStr token), (''count'', JInt count),
                 (''ts_to'', JInt (unix_time w - days * 86400))]]) \<and>
   (days = 0 \<longrightarrow>
      snd (list_files w token days count tr) =
        tr @ [Print ''[*] %s delete files older than %s days'' [Now, Val (JInt days)],
              Get ''https://slack.com/api/files.list''
                [(''token'', JStr token), (''count'', JInt count)]])"
  by (simp add: list_files_trace list_params_def calculate_days_def list_uri_def)

text \<open>
  The example of the specification: 30 days at a clock of \<open>2 * 2592000\<close> give the cutoff
  \<open>2592000\<close>; 0 days give no cutoff.
\<close>

theorem list_files_cutoff_witness:
  "snd (list_files listing_world ''xoxp'' 30 1000 []) =
      [Print ''[*] %s delete files older than %s days'' [Now, Val (JInt 30)],
       Get ''https://slack.com/api/files.list''
         [(''token'', JStr ''xoxp''), (''count'', JInt 1000), (''ts_to'', JInt 2592000)]] \<and>
   snd (list_files listing_world ''xoxp'' 0 1000 []) =
      [Print ''[*] %s delete files older than %s days'' [Now, Val (JInt 0)],
       Get ''https://slack.com/api/files.list''
         [(''token'', JStr ''xoxp''), (''count'', JInt 1000)]]"
  using list_files_cutoff [where days = 30 and w = listing_world and token = "''xoxp''"
                             and count = 1000 and tr = "[]"]
        list_files_cutoff [where days = 0 and w = listing_world and token = "''xoxp''"
                             and count = 1000 and tr = "[]"]
  by (simp add: listing_world_def example_world_def)

text \<open>
  Claim C9. For every negative days value the listing request still carries \<open>ts_to\<close>,
  computed as the current time minus \<open>days * 86400\<close>, which lies in the future. The request
  without \<open>ts_to\<close> is sent exactly when days is \<open>0\<close>.
\<close>

theorem list_files_negative_days:
  "(days < 0 \<longrightarrow>
      snd (list_files w token days count tr) =
        tr @ [Print ''[*] %s delete files older than %s days'' [Now, Val (JInt days)],
              Get ''https://slack.com/api/files.list''
                [(''token'', JStr token), (''count'', JInt count),
                 (''ts_to'', JInt (unix_time w - days * 86400))]] \<and>
      unix_time w < unix_time w - days * 86400) \<and>
   ((last (snd (list_files w token days count tr)) =
       Get ''https://slack.com/api/files.list''
         [(''token'', JStr token), (''count'', JInt count)]) = (days = 0))"
  by (simp add: list_files_trace list_params_def calculate_days_def list_uri_def)

theorem list_files_negative_days_witness:
  "snd (list_files listing_world ''xoxp'' (- 1) 1000 []) =
      [Print ''[*] %s delete files older than %s days'' [Now, Val (JInt (- 1))],
       Get ''https://slack.com/api/files.list''
         [(''token'', JStr ''xoxp''), (''count'', JInt 1000), (''ts_to'', JInt 5270400)]] \<and>
   unix_time listing_world < 5270400 \<and>
   last (snd (list_files listing_world ''xoxp'' 0 1000 [])) =
      Get ''https://slack.com/api/files.list'' [(''token'', JStr ''xoxp''), (''count'', JInt 1000)]"
  using list_files_negative_days [where days = "- 1" and w = listing_world
                                    and token = "''xoxp''" and count = 1000 and tr = "[]"]
        list_files_negative_days [where days = 0 and w = listing_world
                                    and token = "''xoxp''" and count = 1000 and tr = "[]"]
  by (simp add: listing_world_def example_world_def)

subsection \<open>The filter on the MIME type\<close>

text \<open>
  Claim C3. For a listing response whose \<open>files\<close> entry is a list of file objects with a
  string mimetype, the records that \<^verbatim>\<open>list_files\<close> returns are the records of exactly
  those file objects whose mimetype contains \<open>audio\<close>, \<open>image\<close> or \<open>video\<close> as a substring,
  in the order of the response: a file object has a record in the result if and only if
  it is such a media file, and every other file object is left out.
\<close>

theorem list_files_mimetype_filter:
  assumes run: "list_files w token days count tr = (Inr files, tr')"
      and body: "http_get_json w tr' = Inr body"
      and resp: "subscript body ''files'' = Inr (JArr fs)"
      and str: "\<forall>f\<in>set fs. \<exists>s. subscript f ''mimetype'' = Inr (JStr s)"
  shows "map Inr files = map (new_record w) (filter spec_media_mimetype fs) \<and>
         (\<forall>f\<in>set fs. spec_media_mimetype f \<longleftrightarrow> (\<exists>r\<in>set files. new_record w f = Inr r))"
proof -
  have tr': "tr' = tr @ [Print ''[*] %s delete files older than %s days'' [Now, Val (JInt days)],
                         Get list_uri (list_params w token days count)]"
    using run list_files_trace [of w token days count tr] by simp
  from run body resp have "filter_files w fs [] = Inr files"
    unfolding tr' by (simp add: list_files_def Let_def)
  from filter_files_spec [OF str this]
  have eq: "map Inr files = map (new_record w) (filter spec_media_mimetype fs)"
    by simp
  have "spec_media_mimetype f \<longleftrightarrow> (\<exists>r\<in>set files. new_record w f = Inr r)"
    if f: "f \<in> set fs" for f
  proof
    assume "spec_media_mimetype f"
    with f have "new_record w f \<in> set (map (new_record w) (filter spec_media_mimetype fs))"
      by simp
    then have "new_record w f \<in> set (map Inr files)"
      by (simp only: eq)
    then show "\<exists>r\<in>set files. new_record w f = Inr r"
      by auto
  next
    assume "\<exists>r\<in>set files. new_record w f = Inr r"
    then obtain r where r: "r \<in> set files" "new_record w f = Inr r"
      by auto
    then have "new_record w f \<in> set (map Inr files)"
      by simp
    then have "new_record w f \<in> set (map (new_record w) (filter spec_media_mimetype fs))"
      by (simp only: eq)
    with r(2) obtain g where g: "spec_media_mimetype g" "new_record w g = Inr r"
      by auto
    from new_record_mimetype [OF r(2)] new_record_mimetype [OF g(2)] g(1)
    show "spec_media_mimetype f"
      by (simp add: spec_media_mimetype_def)
  qed
  with eq show ?thesis by blast
qed

text \<open>
  The example of the specification: of \<open>F1\<close> (\<open>image/png\<close>) and \<open>F2\<close> (\<open>text/plain\<close>) only
  \<open>F1\<close> is returned.
\<close>

theorem list_files_mimetype_filter_witness:
  "fst (list_files listing_world ''xoxp'' 30 1000 []) =
     Inr [example_record ''F1'' ''image/png'' 100] \<and>
   filter spec_media_mimetype
     [example_file ''F1'' ''image/png'' 100, example_file ''F2'' ''text/plain'' 50] =
     [example_file ''F1'' ''image/png'' 100] \<and>
   map (new_record listing_world) [example_file ''F1'' ''image/png'' 100] =
     [Inr (example_record ''F1'' ''image/png'' 100)]"
proof -
  let ?tr = "[Print ''[*] %s delete files older than %s days'' [Now, Val (JInt 30)],
              Get ''https://slack.com/api/files.list''
                [(''token'', JStr ''xoxp''), (''count'', JInt 1000), (''ts_to'', JInt 2592000)]]"
  let ?fs = "[example_file ''F1'' ''image/png'' 100, example_file ''F2'' ''text/plain'' 50]"
  have run: "list_files listing_world ''xoxp'' 30 1000 [] =
               (Inr [example_record ''F1'' ''image/png'' 100], ?tr)"
    by (simp add: example_defs script_defs sublist_code)
  have body: "http_get_json listing_world ?tr = Inr example_listing"
    by (simp add: listing_world_def example_world_def)
  have resp: "subscript example_listing ''files'' = Inr (JArr ?fs)"
    by (simp add: example_listing_def)
  have str: "\<forall>f\<in>set ?fs. \<exists>s. subscript f ''mimetype'' = Inr (JStr s)"
    by (simp add: example_file_def)
  from list_files_mimetype_filter [OF run body resp str] run show ?thesis
    by (simp add: example_defs script_defs spec_media_mimetype_def sublist_code)
qed

subsection \<open>The requests of the delete loop\<close>

text \<open>
  Claim C1. In a dry run \<^verbatim>\<open>delete_files\<close> sends no request and sleeps never. Otherwise the
  requests and sleeps of any run are a prefix of: one request per record, carrying that
  record's id, each followed by a sleep of 2 seconds, in the order of the input list; and
  in every run that is not cut short by an exception they are exactly that sequence,
  whether the answers report ok or not.
\<close>

theorem delete_files_requests:
  assumes "delete_files w token files view_only tr = (r, tr')"
  shows "\<exists>ev. tr' = tr @ ev \<and>
     (view_only \<longrightarrow> filter is_io ev = []) \<and>
     (\<not> view_only \<longrightarrow>
        prefix (filter is_io ev)
          (concat (map (\<lambda>f. [Get ''https://slack.com/api/files.list''
                                [(''token'', JStr token), (''file'', f_id f)],
                              Sleep 2]) files)) \<and>
        (r = Inr () \<longrightarrow>
           filter is_io ev =
             concat (map (\<lambda>f. [Get ''https://slack.com/api/files.list''
                                  [(''token'', JStr token), (''file'', f_id f)],
                                Sleep 2]) files)))"
  using delete_files_io [OF assms]
  by (simp add: list_uri_def delete_params_def wait_seconds_def)

text \<open>
  Three records, the first deleted and the other two refused: three requests in input
  order, a sleep after each; none in the dry run.
\<close>

theorem delete_files_requests_witness:
  "filter is_io (snd (delete_files mixed_world ''xoxp'' example_files True [])) = [] \<and>
   fst (delete_files mixed_world ''xoxp'' example_files False []) = Inr () \<and>
   filter is_io (snd (delete_files mixed_world ''xoxp'' example_files False [])) =
     [Get ''https://slack.com/api/files.list'' [(''token'', JStr ''xoxp''), (''file'', JStr ''F1'')],
      Sleep 2,
      Get ''https://slack.com/api/files.list'' [(''token'', JStr ''xoxp''), (''file'', JStr ''F2'')],
      Sleep 2,
      Get ''https://slack.com/api/files.list'' [(''token'', JStr ''xoxp''), (''file'', JStr ''F3'')],
      Sleep 2]"
  using delete_files_requests [of mixed_world "''xoxp''" example_files True "[]"
              "fst (delete_files mixed_world ''xoxp'' example_files True [])"
              "snd (delete_files mixed_world ''xoxp'' example_files True [])"]
        delete_files_requests [of mixed_world "''xoxp''" example_files False "[]"
              "fst (delete_files mixed_world ''xoxp'' example_files False [])"
              "snd (delete_files mixed_world ''xoxp'' example_files False [])"]
  by (simp add: example_defs script_defs)

text \<open>
  Claim C2. Every request that \<^verbatim>\<open>delete_files\<close> sends goes to the listing endpoint
  \<^verbatim>\<open>https://slack.com/api/files.list\<close>; no request goes to the deletion endpoint
  \<^verbatim>\<open>https://slack.com/api/files.delete\<close>.
\<close>

theorem delete_files_endpoint:
  assumes "delete_files w token files view_only tr = (r, tr')"
  shows "\<exists>ev. tr' = tr @ ev \<and>
     (\<forall>u p. Get u p \<in> set ev \<longrightarrow> u = ''https://slack.com/api/files.list'') \<and>
     (\<forall>p. Get ''https://slack.com/api/files.delete'' p \<notin> set ev)"
proof -
  let ?io = "\<lambda>f. [Get list_uri (delete_params token f), Sleep wait_seconds]"
  from delete_files_io [OF assms] obtain ev where ev: "tr' = tr @ ev"
    and dry: "view_only \<longrightarrow> filter is_io ev = []"
    and pre: "\<not> view_only \<longrightarrow> prefix (filter is_io ev) (concat (map ?io files))"
    by blast
  have "u = list_uri" if g: "Get u p \<in> set ev" for u p
  proof -
    from g have in_io: "Get u p \<in> set (filter is_io ev)"
      by simp
    show ?thesis
    proof (cases view_only)
      case True
      with dry in_io show ?thesis by simp
    next
      case False
      with pre in_io have "Get u p \<in> set (concat (map ?io files))"
        using set_mono_prefix by blast
      then show ?thesis by auto
    qed
  qed
  then have "(\<forall>u p. Get u p \<in> set ev \<longrightarrow> u = ''https://slack.com/api/files.list'') \<and>
     (\<forall>p. Get ''https://slack.com/api/files.delete'' p \<notin> set ev)"
    by (fastforce simp: list_uri_def)
  with ev show ?thesis by blast
qed

theorem delete_files_endpoint_witness:
  "Get ''https://slack.com/api/files.list'' [(''token'', JStr ''xoxp''), (''file'', JStr ''F1'')]
     \<in> set (snd (delete_files mixed_world ''xoxp'' example_files False [])) \<and>
   Get ''https://slack.com/api/files.delete'' [(''token'', JStr ''xoxp''), (''file'', JStr ''F1'')]
     \<notin> set (snd (delete_files mixed_world ''xoxp'' example_files False []))"
  using delete_files_endpoint [of mixed_world "''xoxp''" example_files False "[]"
              "fst (delete_files mixed_world ''xoxp'' example_files False [])"
              "snd (delete_files mixed_world ''xoxp'' example_files False [])"]
  by (simp add: example_defs script_defs)

subsection \<open>The totals of the two summary lines\<close>

text \<open>
  Claim C5. For every list of records with integer sizes, in a dry run or not and
  whatever the remote answers: the first thing \<^verbatim>\<open>delete_files\<close> prints is the summary with
  the length of the list and the sum of the sizes (followed by the table of the records),
  and the last thing it prints is the final summary with the same sum and length.
\<close>

theorem delete_files_totals:
  assumes run: "delete_files w token files view_only tr = (r, tr')"
      and ints: "map f_size files = map JInt ns"
  shows "\<exists>mid count.
     tr' = tr @ [Print ''[i] %s found %s files in %s bytes''
                   [Now, Val (JInt (int (length files))), Val (JInt (sum_list ns))],
                 rows files] @ mid @
                [Print ''[i] %s Attempted to delete %s bytes in %s files, actually deleted %s files''
                   [Now, Val (JInt (sum_list ns)), Val (JInt (int (length files))),
                    Val (JInt count)]]"
proof -
  let ?tr1 = "tr @ [found_line (int (length files)) (sum_list ns), rows files]"
  note sz = sizes_JInt [OF ints, of w]
  have "\<exists>mid count. tr' = ?tr1 @ mid @ [attempted_line (sum_list ns) (int (length files)) count]"
  proof (cases view_only)
    case True
    with sz run have "tr' = ?tr1 @ [] @ [attempted_line (sum_list ns) (int (length files)) 0]"
      by (auto simp: delete_files_def Let_def)
    then show ?thesis by blast
  next
    case False
    obtain r0 c tr2 where loop: "delete_loop w token files 0 ?tr1 = (r0, c, tr2)"
      by (cases "delete_loop w token files 0 ?tr1") auto
    with sz False run have tr': "tr' = tr2 @ [attempted_line (sum_list ns) (int (length files)) c]"
      by (auto simp: delete_files_def Let_def)
    from delete_loop_io [OF loop] obtain ev where "tr2 = ?tr1 @ ev"
      by blast
    with tr' have "tr' = ?tr1 @ ev @ [attempted_line (sum_list ns) (int (length files)) c]"
      by simp
    then show ?thesis by blast
  qed
  then show ?thesis
    by (simp add: found_line_def attempted_line_def)
qed

text \<open>Three records of 100, 50 and 7 bytes, two of them refused: 3 files in 157 bytes.\<close>

theorem delete_files_totals_witness:
  "snd (delete_files mixed_world ''xoxp'' example_files False []) =
     [Print ''[i] %s found %s files in %s bytes'' [Now, Val (JInt 3), Val (JInt 157)],
      rows example_files,
      Get list_uri [(''token'', JStr ''xoxp''), (''file'', JStr ''F1'')],
      Sleep 2,
      deleted_line (example_record ''F1'' ''image/png'' 100),
      Get list_uri [(''token'', JStr ''xoxp''), (''file'', JStr ''F2'')],
      Sleep 2,
      unable_line (example_record ''F2'' ''video/mp4'' 50) (JStr ''not_found''),
      Get list_uri [(''token'', JStr ''xoxp''), (''file'', JStr ''F3'')],
      Sleep 2,
      unable_line (example_record ''F3'' ''audio/mpeg'' 7) (JStr ''not_found''),
      Print ''[i] %s Attempted to delete %s bytes in %s files, actually deleted %s files''
        [Now, Val (JInt 157), Val (JInt 3), Val (JInt 3)]]"
proof -
  have ints: "map f_size example_files = map JInt [100, 50, 7]"
    by (simp add: example_files_def example_record_def)
  from delete_files_totals [OF _ ints, of mixed_world "''xoxp''" False "[]"
         "fst (delete_files mixed_world ''xoxp'' example_files False [])"
         "snd (delete_files mixed_world ''xoxp'' example_files False [])"]
  show ?thesis
    by (simp add: example_defs script_defs)
qed

subsection \<open>The final summary and exceptions\<close>

text \<open>
  Claim C6. Once the sizes are summed, the final summary line of \<^verbatim>\<open>delete_files\<close> is printed
  however the loop ends: after the loop has finished, and after an exception has left the
  loop. The outcome of the loop is the outcome of \<^verbatim>\<open>delete_files\<close>: an exception raised in
  the loop is raised by \<^verbatim>\<open>delete_files\<close>, after the summary line.
\<close>

theorem delete_files_finally:
  assumes "sizes w files = Inr ns"
      and "delete_loop w token files 0
             (tr @ [found_line (int (length files)) (sum_list ns), rows files]) = (r, count, tr1)"
  shows "delete_files w token files False tr =
           (r, tr1 @ [Print ''[i] %s Attempted to delete %s bytes in %s files, actually deleted %s files''
                        [Now, Val (JInt (sum_list ns)), Val (JInt (int (length files))),
                         Val (JInt count)]])"
  using assms by (simp add: delete_files_def Let_def attempted_line_def)

text \<open>
  The second request raises: the loop leaves the trace at that request, and
  \<^verbatim>\<open>delete_files\<close> adds the summary and raises the same exception.
\<close>

theorem delete_files_finally_witness:
  "delete_files broken_world ''xoxp'' example_files False [] =
     (Inl (OtherError ''ConnectionError''),
      [found_line 3 157,
       rows example_files,
       Get list_uri [(''token'', JStr ''xoxp''), (''file'', JStr ''F1'')],
       Sleep 2,
       deleted_line (example_record ''F1'' ''image/png'' 100),
       Get list_uri [(''token'', JStr ''xoxp''), (''file'', JStr ''F2'')],
       Print ''[i] %s Attempted to delete %s bytes in %s files, actually deleted %s files''
         [Now, Val (JInt 157), Val (JInt 3), Val (JInt 2)]])"
proof -
  have sz: "sizes broken_world example_files = Inr [100, 50, 7]"
    by (simp add: example_files_def example_record_def)
  have loop: "delete_loop broken_world ''xoxp'' example_files 0
                ([] @ [found_line (int (length example_files)) (sum_list [100, 50, 7]),
                       rows example_files]) =
              (Inl (OtherError ''ConnectionError''), 2,
               [found_line 3 157,
                rows example_files,
                Get list_uri [(''token'', JStr ''xoxp''), (''file'', JStr ''F1'')],
                Sleep 2,
                deleted_line (example_record ''F1'' ''image/png'' 100),
                Get list_uri [(''token'', JStr ''xoxp''), (''file'', JStr ''F2'')]])"
    by (simp add: example_defs script_defs)
  from delete_files_finally [OF sz loop] show ?thesis
    by (simp add: example_files_def)
qed

text \<open>
  Claim C10. The counter is incremented before the request is sent: when the loop has
  handled the records before the \<open>k\<close>-th one and the request for the \<open>k\<close>-th record (or the
  parsing of its answer) raises, \<^verbatim>\<open>delete_files\<close> raises that exception and its final summary
  reports \<open>k\<close> attempted deletions.
\<close>

theorem delete_files_count_on_exception:
  assumes sz: "sizes w files = Inr ns"
      and split: "files = pre @ f # post"
      and before: "delete_loop w token pre 0
                     (tr @ [found_line (int (length files)) (sum_list ns), rows files]) =
                     (Inr (), c, tr1)"
      and raised: "http_get_json w
                     (tr1 @ [Get ''https://slack.com/api/files.list''
                               [(''token'', JStr token), (''file'', f_id f)]]) = Inl e"
  shows "delete_files w token files False tr =
           (Inl e,
            tr1 @ [Get ''https://slack.com/api/files.list''
                     [(''token'', JStr token), (''file'', f_id f)],
                   Print ''[i] %s Attempted to delete %s bytes in %s files, actually deleted %s files''
                     [Now, Val (JInt (sum_list ns)), Val (JInt (int (length files))),
                      Val (JInt (int (length pre) + 1))]])"
proof -
  from delete_loop_count [OF before] have c: "c = int (length pre)"
    by simp
  have "delete_loop w token (pre @ f # post) 0
          (tr @ [found_line (int (length files)) (sum_list ns), rows files]) =
        (Inl e, int (length pre) + 1,
         tr1 @ [Get ''https://slack.com/api/files.list''
                  [(''token'', JStr token), (''file'', f_id f)]])"
    using before raised unfolding c
    by (simp add: delete_loop_append Let_def delete_params_def list_uri_def)
  with sz show ?thesis
    unfolding split by (simp add: delete_files_def Let_def attempted_line_def)
qed

text \<open>The request for the second of three records raises: 2 attempted deletions.\<close>

theorem delete_files_count_on_exception_witness:
  "fst (delete_files broken_world ''xoxp'' example_files False []) =
     Inl (OtherError ''ConnectionError'') \<and>
   last (snd (delete_files broken_world ''xoxp'' example_files False [])) =
     Print ''[i] %s Attempted to delete %s bytes in %s files, actually deleted %s files''
       [Now, Val (JInt 157), Val (JInt 3), Val (JInt 2)]"
proof -
  let ?f1 = "example_record ''F1'' ''image/png'' 100"
  let ?f2 = "example_record ''F2'' ''video/mp4'' 50"
  let ?f3 = "example_record ''F3'' ''audio/mpeg'' 7"
  let ?tr1 = "[found_line 3 157, rows example_files,
               Get list_uri [(''token'', JStr ''xoxp''), (''file'', JStr ''F1'')],
               Sleep 2, deleted_line ?f1]"
  have sz: "sizes broken_world example_files = Inr [100, 50, 7]"
    by (simp add: example_files_def example_record_def)
  have split: "example_files = [?f1] @ ?f2 # [?f3]"
    by (simp add: example_files_def)
  have before: "delete_loop broken_world ''xoxp'' [?f1] 0
                  ([] @ [found_line (int (length example_files)) (sum_list [100, 50, 7]),
                         rows example_files]) = (Inr (), 1, ?tr1)"
    by (simp add: example_defs script_defs)
  have raised: "http_get_json broken_world
                  (?tr1 @ [Get ''https://slack.com/api/files.list''
                             [(''token'', JStr ''xoxp''), (''file'', f_id ?f2)]]) =
                Inl (OtherError ''ConnectionError'')"
    by (simp add: example_defs script_defs)
  from delete_files_count_on_exception [OF sz split before raised] show ?thesis
    by (simp add: example_files_def)
qed

subsection \<open>A refused deletion\<close>

text \<open>
  Claim C7. When the loop has handled the records before \<open>f\<close> and the answer to the request
  for \<open>f\<close> reports not-ok with an error reason, the loop has sent that one request, slept,
  printed the failure line with the reason, counted \<open>f\<close> as attempted, and goes on with the
  records after \<open>f\<close>: nothing is sent for \<open>f\<close> again.
\<close>

theorem delete_loop_not_ok:
  assumes before: "delete_loop w token pre 0 tr0 = (Inr (), c, tr1)"
      and resp: "http_get_json w
                   (tr1 @ [Get ''https://slack.com/api/files.list''
                             [(''token'', JStr token), (''file'', f_id f)]]) = Inr d"
      and slept: "sleep w
                   (tr1 @ [Get ''https://slack.com/api/files.list''
                             [(''token'', JStr token), (''file'', f_id f)], Sleep 2]) = None"
      and ok: "subscript d ''ok'' = Inr ok"
      and not_ok: "\<not> truthy ok"
      and reason: "subscript d ''error'' = Inr reason"
  shows "delete_loop w token (pre @ f # post) 0 tr0 =
           delete_loop w token post (int (length pre) + 1)
             (tr1 @ [Get ''https://slack.com/api/files.list''
                       [(''token'', JStr token), (''file'', f_id f)],
                     Sleep 2,
                     Print ''[!] %s Unable to delete: [%s] %s, reason: %s''
                       [Now, Val (f_id f), Val (f_name f), Val reason]])"
proof -
  from delete_loop_count [OF before] have c: "c = int (length pre)"
    by simp
  show ?thesis
    using before resp slept ok not_ok reason unfolding c
    by (simp add: delete_loop_append Let_def delete_params_def list_uri_def wait_seconds_def
        unable_line_def)
qed

text \<open>
  The example of the specification: the answer \<open>{ok: false, error: not_found}\<close> for \<open>F2\<close>
  is logged with the reason, the count goes to 2, and the loop goes on with \<open>F3\<close>.
\<close>

theorem delete_loop_not_ok_witness:
  "delete_loop mixed_world ''xoxp''
     ([example_record ''F1'' ''image/png'' 100] @
      example_record ''F2'' ''video/mp4'' 50 # [example_record ''F3'' ''audio/mpeg'' 7]) 0 [] =
   (Inr (), 3,
    [Get list_uri [(''token'', JStr ''xoxp''), (''file'', JStr ''F1'')],
     Sleep 2,
     deleted_line (example_record ''F1'' ''image/png'' 100),
     Get list_uri [(''token'', JStr ''xoxp''), (''file'', JStr ''F2'')],
     Sleep 2,
     Print ''[!] %s Unable to delete: [%s] %s, reason: %s''
       [Now, Val (JStr ''F2''), Val (JStr ''F2.bin''), Val (JStr ''not_found'')],
     Get list_uri [(''token'', JStr ''xoxp''), (''file'', JStr ''F3'')],
     Sleep 2,
     Print ''[!] %s Unable to delete: [%s] %s, reason: %s''
       [Now, Val (JStr ''F3''), Val (JStr ''F3.bin''), Val (JStr ''not_found'')]])"
proof -
  let ?f1 = "example_record ''F1'' ''image/png'' 100"
  let ?f2 = "example_record ''F2'' ''video/mp4'' 50"
  let ?f3 = "example_record ''F3'' ''audio/mpeg'' 7"
  let ?tr1 = "[Get list_uri [(''token'', JStr ''xoxp''), (''file'', JStr ''F1'')],
               Sleep 2, deleted_line ?f1]"
  have before: "delete_loop mixed_world ''xoxp'' [?f1] 0 [] = (Inr (), 1, ?tr1)"
    by (simp add: example_defs script_defs)
  have resp: "http_get_json mixed_world
                (?tr1 @ [Get ''https://slack.com/api/files.list''
                           [(''token'', JStr ''xoxp''), (''file'', f_id ?f2)]]) =
              Inr not_found_answer"
    by (simp add: example_defs script_defs)
  have slept: "sleep mixed_world
                (?tr1 @ [Get ''https://slack.com/api/files.list''
                           [(''token'', JStr ''xoxp''), (''file'', f_id ?f2)], Sleep 2]) = None"
    by (simp add: example_defs script_defs)
  have ok: "subscript not_found_answer ''ok'' = Inr (JBool False)"
    by (simp add: not_found_answer_def)
  have not_ok: "\<not> truthy (JBool False)"
    by simp
  have reason: "subscript not_found_answer ''error'' = Inr (JStr ''not_found'')"
    by (simp add: not_found_answer_def)
  have rest: "delete_loop mixed_world ''xoxp'' [?f3] (int (length [?f1]) + 1)
                (?tr1 @ [Get ''https://slack.com/api/files.list''
                           [(''token'', JStr ''xoxp''), (''file'', f_id ?f2)],
                         Sleep 2,
                         Print ''[!] %s Unable to delete: [%s] %s, reason: %s''
                           [Now, Val (f_id ?f2), Val (f_name ?f2), Val (JStr ''not_found'')]]) =
              (Inr (), 3,
               [Get list_uri [(''token'', JStr ''xoxp''), (''file'', JStr ''F1'')],
                Sleep 2,
                deleted_line (example_record ''F1'' ''image/png'' 100),
                Get list_uri [(''token'', JStr ''xoxp''), (''file'', JStr ''F2'')],
                Sleep 2,
                Print ''[!] %s Unable to delete: [%s] %s, reason: %s''
                  [Now, Val (JStr ''F2''), Val (JStr ''F2.bin''), Val (JStr ''not_found'')],
                Get list_uri [(''token'', JStr ''xoxp''), (''file'', JStr ''F3'')],
                Sleep 2,
                Print ''[!] %s Unable to delete: [%s] %s, reason: %s''
                  [Now, Val (JStr ''F3''), Val (JStr ''F3.bin''), Val (JStr ''not_found'')]])"
    by (simp add: example_defs script_defs)
  note step = delete_loop_not_ok [OF before resp slept ok not_ok reason, where post = "[?f3]"]
  show ?thesis
    by (rule trans [OF step rest])
qed

subsection \<open>The entry point\<close>

text \<open>
  Claim C8. When \<^verbatim>\<open>list_files\<close> or \<^verbatim>\<open>delete_files\<close> raises \<open>KeyboardInterrupt\<close>, \<^verbatim>\<open>main\<close> prints
  the abort notice and exits with status 1. Any other exception that they raise is not
  caught: it leaves \<^verbatim>\<open>main\<close>, and no abort notice is printed.
\<close>

theorem main_interrupt:
  "(list_files w (opt_token options) (opt_days options) (opt_count options)
       [Print ''[*] Fetching file list..'' []] = (Inl e, tr1) \<longrightarrow>
      main w options =
        (if e = KeyboardInterrupt
         then (Exited 1, tr1 @ [Print ([CHR 0x08, CHR 0x08] @ ''[-] Aborted'') []])
         else (Uncaught e, tr1))) \<and>
   (list_files w (opt_token options) (opt_days options) (opt_count options)
       [Print ''[*] Fetching file list..'' []] = (Inr files, tr1) \<and>
    delete_files w (opt_token options) files (opt_dry_run options)
       (tr1 @ [Print ''[*] Deleting files..'' []]) = (Inl e, tr3) \<longrightarrow>
      main w options =
        (if e = KeyboardInterrupt
         then (Exited 1, tr3 @ [Print ([CHR 0x08, CHR 0x08] @ ''[-] Aborted'') []])
         else (Uncaught e, tr3)))"
  by (simp add: main_def Let_def handler_def aborted_line_def)

text \<open>
  An interrupt during the first sleep of the delete loop ends the run with the final
  summary, the abort notice and status 1; a connection error of the listing request is
  not caught.
\<close>

theorem main_interrupt_witness:
  "main interrupted_world example_options =
     (Exited 1,
      [Print ''[*] Fetching file list..'' [],
       Print ''[*] %s delete files older than %s days'' [Now, Val (JInt 30)],
       Get list_uri [(''token'', JStr ''xoxp''), (''count'', JInt 1000), (''ts_to'', JInt 2592000)],
       Print ''[*] Deleting files..'' [],
       found_line 1 100,
       rows [example_record ''F1'' ''image/png'' 100],
       Get list_uri [(''token'', JStr ''xoxp''), (''file'', JStr ''F1'')],
       Sleep 2,
       attempted_line 100 1 1,
       Print ([CHR 0x08, CHR 0x08] @ ''[-] Aborted'') []]) \<and>
   main offline_world example_options =
     (Uncaught (OtherError ''ConnectionError''),
      [Print ''[*] Fetching file list..'' [],
       Print ''[*] %s delete files older than %s days'' [Now, Val (JInt 30)],
       Get list_uri [(''token'', JStr ''xoxp''), (''count'', JInt 1000), (''ts_to'', JInt 2592000)]])"
proof -
  let ?tr1 = "[Print ''[*] Fetching file list..'' [],
               Print ''[*] %s delete files older than %s days'' [Now, Val (JInt 30)],
               Get list_uri [(''token'', JStr ''xoxp''), (''count'', JInt 1000),
                             (''ts_to'', JInt 2592000)]]"
  let ?tr3 = "?tr1 @ [Print ''[*] Deleting files..'' [],
               found_line 1 100,
               rows [example_record ''F1'' ''image/png'' 100],
               Get list_uri [(''token'', JStr ''xoxp''), (''file'', JStr ''F1'')],
               Sleep 2,
               attempted_line 100 1 1]"
  have listed: "list_files interrupted_world (opt_token example_options)
                  (opt_days example_options) (opt_count example_options)
                  [Print ''[*] Fetching file list..'' []] =
                (Inr [example_record ''F1'' ''image/png'' 100], ?tr1)"
    by (simp add: example_defs script_defs sublist_code)
  have deleted: "delete_files interrupted_world (opt_token example_options)
                   [example_record ''F1'' ''image/png'' 100] (opt_dry_run example_options)
                   (?tr1 @ [Print ''[*] Deleting files..'' []]) = (Inl KeyboardInterrupt, ?tr3)"
    by (simp add: example_defs script_defs)
  have offline: "list_files offline_world (opt_token example_options)
                  (opt_days example_options) (opt_count example_options)
                  [Print ''[*] Fetching file list..'' []] =
                (Inl (OtherError ''ConnectionError''), ?tr1)"
    by (simp add: example_defs script_defs)
  from main_interrupt [where w = interrupted_world and options = example_options
                         and files = "[example_record ''F1'' ''image/png'' 100]"
                         and ?tr1.0 = ?tr1 and ?tr3.0 = ?tr3 and e = KeyboardInterrupt]
       main_interrupt [where w = offline_world and options = example_options
                         and ?tr1.0 = ?tr1 and e = "OtherError ''ConnectionError''"
                         and files = "[]" and ?tr3.0 = "[]"]
       listed deleted offline
  show ?thesis
    by simp
qed

end
